theory Spec2Isabelle
  imports Complex_Main "HOL-Library.Word"
begin

section \<open>The DBPF container reader (dbpf.py)\<close>

text \<open>
  A shallow embedding of \<^verbatim>\<open>dbpf.py\<close>: the two \<^verbatim>\<open>struct\<close> layouts, the
  \<^verbatim>\<open>DBPF\<close> class with its constructor and properties, and the \<^verbatim>\<open>version\<close> helper.
  Exceptions are values of the type \<open>error\<close>; a method that can raise returns
  \<open>error + 'a\<close>, with \<open>Inl\<close> the exception. The file object is a byte list with a
  cursor, and every method that moves the cursor returns the moved file. The
  \<^verbatim>\<open>verbose\<close> flag only prints and is left out, and so are the properties
  \<^verbatim>\<open>flags\<close>, \<^verbatim>\<open>ctime\<close>, \<^verbatim>\<open>mtime\<close> and \<^verbatim>\<open>holes\<close>, which only copy header fields.
\<close>

subsection \<open>Bytes, exceptions and the file object\<close>

type_synonym bytes = string

type_synonym u16 = "16 word"
type_synonym u32 = "32 word"
type_synonym u64 = "64 word"

text \<open>
  The exceptions that the code can raise: \<^verbatim>\<open>struct.error\<close> from \<^verbatim>\<open>unpack\<close>, the
  module's own \<^verbatim>\<open>DBPFException\<close> and \<^verbatim>\<open>ArgumentException\<close>, and the built-in
  \<^verbatim>\<open>ZeroDivisionError\<close>, \<^verbatim>\<open>ValueError\<close> and \<^verbatim>\<open>OSError\<close>.
\<close>

datatype error =
    StructError
  | DBPFException
  | ArgumentException
  | ZeroDivisionError
  | ValueError
  | OSError

text \<open>
  The file object is the one \<^verbatim>\<open>__main__\<close> passes in: \<^verbatim>\<open>open(filename, 'rb')\<close>, a
  buffered reader over a regular file. \<^verbatim>\<open>seek(t)\<close> sets the cursor to any offset
  that fits a signed 64-bit file offset, also beyond the end of the file; a larger
  target raises \<^verbatim>\<open>ValueError\<close> and a negative one \<^verbatim>\<open>OSError\<close>. \<^verbatim>\<open>read(n)\<close>
  returns the next \<open>n\<close> bytes, or fewer when the file ends first (never an error);
  \<^verbatim>\<open>read(-1)\<close> returns everything up to the end, and \<open>n < -1\<close> raises
  \<^verbatim>\<open>ValueError\<close>.
\<close>

record fileobj =
  data :: bytes
  pos :: nat

definition seek :: "int \<Rightarrow> fileobj \<Rightarrow> error + fileobj" where
  "seek t f =
     (if t < 0 then Inl OSError
      else if 2 ^ 63 \<le> t then Inl ValueError
      else Inr (f\<lparr>pos := nat t\<rparr>))"

definition read :: "int \<Rightarrow> fileobj \<Rightarrow> error + (bytes \<times> fileobj)" where
  "read n f =
     (if n < -1 then Inl ValueError
      else
        let avail = drop (pos f) (data f);
            bs = (if n = -1 then avail else take (nat n) avail)
        in Inr (bs, f\<lparr>pos := pos f + length bs\<rparr>))"

subsection \<open>The struct layouts\<close>

text \<open>
  Both format strings start with \<^verbatim>\<open><\<close>: little-endian, standard sizes, no padding.
  \<open>I\<close> is an unsigned 32-bit integer, \<open>H\<close> an unsigned 16-bit one, \<open>Q\<close> an unsigned
  64-bit one, and \<open>4s\<close>, \<open>24s\<close> are byte strings.
\<close>

definition slice :: "bytes \<Rightarrow> nat \<Rightarrow> nat \<Rightarrow> bytes" where
  "slice bs off n = take n (drop off bs)"

definition le_nat :: "bytes \<Rightarrow> nat" where
  "le_nat bs = foldr (\<lambda>c n. of_char c + 256 * n) bs 0"

definition le_word :: "bytes \<Rightarrow> 'a::len word" where
  "le_word bs = of_nat (le_nat bs)"

record Header =
  fileIdentifier :: bytes
  fileMajor :: u32
  fileMinor :: u32
  userMajor :: u32
  userMinor :: u32
  flags :: u32
  creationTime :: u32
  updatedTime :: u32
  indexRecordMajorVersion :: u32
  indexRecordEntryCount :: u32
  indexOffsetBytesV1 :: u32
  indexRecordSizeBytes :: u32
  holeIndexEntryCount :: u32
  holeIndexOffset :: u32
  holeIndexSize :: u32
  indexMinorVersion :: u32
  indexOffsetBytes :: u64
  reserved :: bytes

record IndexEntry =
  mType :: u32
  mGroup :: u32
  mInstanceEx :: u32
  mInstance :: u32
  mnPosition :: u32
  mnSize :: u32
  mnSizeDecompressed :: u32
  mnCompressionType :: u16
  mnCommitted :: u16

text \<open>
  \<^verbatim>\<open>HeaderStruct.size\<close> is \<open>4 + 15 * 4 + 8 + 24 = 96\<close> and
  \<^verbatim>\<open>IndexEntryStruct.size\<close> is \<open>7 * 4 + 2 * 2 = 32\<close>. \<^verbatim>\<open>unpack\<close> raises
  \<^verbatim>\<open>struct.error\<close> unless the buffer has exactly that many bytes; otherwise it
  returns the fields, each read at its offset (\<open>HeaderStruct_fields\<close>,
  \<open>IndexEntryStruct_fields\<close>).
\<close>

definition HeaderStruct_size :: nat where
  "HeaderStruct_size = 4 + 15 * 4 + 8 + 24"

definition IndexEntryStruct_size :: nat where
  "IndexEntryStruct_size = 7 * 4 + 2 * 2"

definition HeaderStruct_fields :: "bytes \<Rightarrow> Header" where
  "HeaderStruct_fields bs = \<lparr>
     fileIdentifier = slice bs 0 4,
     fileMajor = le_word (slice bs 4 4),
     fileMinor = le_word (slice bs 8 4),
     userMajor = le_word (slice bs 12 4),
     userMinor = le_word (slice bs 16 4),
     flags = le_word (slice bs 20 4),
     creationTime = le_word (slice bs 24 4),
     updatedTime = le_word (slice bs 28 4),
     indexRecordMajorVersion = le_word (slice bs 32 4),
     indexRecordEntryCount = le_word (slice bs 36 4),
     indexOffsetBytesV1 = le_word (slice bs 40 4),
     indexRecordSizeBytes = le_word (slice bs 44 4),
     holeIndexEntryCount = le_word (slice bs 48 4),
     holeIndexOffset = le_word (slice bs 52 4),
     holeIndexSize = le_word (slice bs 56 4),
     indexMinorVersion = le_word (slice bs 60 4),
     indexOffsetBytes = le_word (slice bs 64 8),
     reserved = slice bs 72 24 \<rparr>"

definition HeaderStruct_unpack :: "bytes \<Rightarrow> error + Header" where
  "HeaderStruct_unpack bs =
     (if length bs \<noteq> HeaderStruct_size then Inl StructError
      else Inr (HeaderStruct_fields bs))"

definition IndexEntryStruct_fields :: "bytes \<Rightarrow> IndexEntry" where
  "IndexEntryStruct_fields bs = \<lparr>
     mType = le_word (slice bs 0 4),
     mGroup = le_word (slice bs 4 4),
     mInstanceEx = le_word (slice bs 8 4),
     mInstance = le_word (slice bs 12 4),
     mnPosition = le_word (slice bs 16 4),
     mnSize = le_word (slice bs 20 4),
     mnSizeDecompressed = le_word (slice bs 24 4),
     mnCompressionType = le_word (slice bs 28 2),
     mnCommitted = le_word (slice bs 30 2) \<rparr>"

definition IndexEntryStruct_unpack :: "bytes \<Rightarrow> error + IndexEntry" where
  "IndexEntryStruct_unpack bs =
     (if length bs \<noteq> IndexEntryStruct_size then Inl StructError
      else Inr (IndexEntryStruct_fields bs))"

subsection \<open>The version helper\<close>

text \<open>
  \<^verbatim>\<open>def version(major, minor): return float('.'.join([str(major),str(minor)]))\<close>

  \<^verbatim>\<open>str\<close> of an unsigned field is its decimal digits without leading zeros,
  \<^verbatim>\<open>join\<close> puts the separator between the strings, and \<^verbatim>\<open>float\<close> parses the
  text. A Python float is a binary64 number; \<open>Binary64_of q\<close> stands for the
  binary64 number nearest to the rational \<open>q\<close>, which is what \<^verbatim>\<open>float\<close> returns
  for a decimal literal of value \<open>q\<close>. The rounding itself is not computed.
  \<open>py_float\<close> covers the literals \<^verbatim>\<open>digits.digits\<close>, the only ones \<^verbatim>\<open>version\<close> can
  build from unsigned fields; signs, exponents, blanks, underscores and the
  special values of Python's grammar are left out (they read as \<^verbatim>\<open>ValueError\<close>).
\<close>

datatype pyfloat = Binary64_of rat

fun py_str :: "nat \<Rightarrow> string" where
  "py_str n =
     (if n < 10 then [char_of (48 + n)]
      else py_str (n div 10) @ [char_of (48 + n mod 10)])"

fun py_join :: "string \<Rightarrow> string list \<Rightarrow> string" where
  "py_join sep [] = []"
| "py_join sep [x] = x"
| "py_join sep (x # y # ys) = x @ sep @ py_join sep (y # ys)"

definition is_digit :: "char \<Rightarrow> bool" where
  "is_digit c = (48 \<le> (of_char c :: nat) \<and> (of_char c :: nat) \<le> 57)"

definition digits_value :: "string \<Rightarrow> nat" where
  "digits_value ds = foldl (\<lambda>n c. 10 * n + (of_char c - 48)) 0 ds"

definition py_float :: "string \<Rightarrow> error + pyfloat" where
  "py_float s =
     (let ip = takeWhile (\<lambda>c. c \<noteq> CHR ''.'') s;
          rest = dropWhile (\<lambda>c. c \<noteq> CHR ''.'') s
      in case rest of
           [] \<Rightarrow> Inl ValueError
         | dot # fp \<Rightarrow>
             if ip \<noteq> [] \<and> fp \<noteq> [] \<and> list_all is_digit ip \<and> list_all is_digit fp
             then Inr (Binary64_of
                    (of_nat (digits_value ip) + of_nat (digits_value fp) / 10 ^ length fp))
             else Inl ValueError)"

definition version :: "u32 \<Rightarrow> u32 \<Rightarrow> error + pyfloat" where
  "version major minor = py_float (py_join ''.'' [py_str (unat major), py_str (unat minor)])"

subsection \<open>The class DBPF\<close>

record Index =
  Index_version :: pyfloat
  Index_count :: int
  Index_offset :: int
  Index_size :: int

text \<open>
  Modelled from the spec: the resource key \<^verbatim>\<open>tgi.TGI\<close> comes from a module \<^verbatim>\<open>tgi\<close>
  that is not part of the source; the spec describes it as an opaque value built
  from (type, group, instanceLow). The name \<^verbatim>\<open>tgi\<close> is bound by the \<^verbatim>\<open>import tgi\<close> of
  the \<^verbatim>\<open>__main__\<close> block, the run that is modelled here.
\<close>

datatype TGI = TGI u32 u32 u32

record Record =
  Record_tgi :: TGI
  Record_offset :: int
  Record_length :: int
  Record_raw :: bytes

record DBPF =
  fd :: fileobj
  header :: Header

text \<open>\<^verbatim>\<open>__init__\<close>: read and unpack the header, then check the magic bytes.\<close>

definition DBPF_init :: "fileobj \<Rightarrow> error + DBPF" where
  "DBPF_init f =
     (case seek 0 f of Inl e \<Rightarrow> Inl e
      | Inr f1 \<Rightarrow>
     (case read (int HeaderStruct_size) f1 of Inl e \<Rightarrow> Inl e
      | Inr (buf, f2) \<Rightarrow>
     (case HeaderStruct_unpack buf of Inl e \<Rightarrow> Inl e
      | Inr headerData \<Rightarrow>
          if fileIdentifier headerData \<noteq> ''DBPF'' then Inl DBPFException
          else Inr \<lparr>fd = f2, header = headerData\<rparr>)))"

definition DBPF_version :: "DBPF \<Rightarrow> error + pyfloat" where
  "DBPF_version self = (let hdr = header self in version (fileMajor hdr) (fileMinor hdr))"

definition DBPF_user_version :: "DBPF \<Rightarrow> error + pyfloat" where
  "DBPF_user_version self = (let hdr = header self in version (userMajor hdr) (userMinor hdr))"

text \<open>
  The property \<^verbatim>\<open>index\<close>. Python integers are unbounded: \<open>offset + 4\<close> does not wrap
  and \<open>indexRecordSizeBytes - 4\<close> can be negative.
\<close>

definition DBPF_index :: "DBPF \<Rightarrow> error + Index" where
  "DBPF_index self =
     (let hdr = header self;
          offset = (if fileMajor hdr = 1 then uint (indexOffsetBytesV1 hdr)
                    else uint (indexOffsetBytes hdr))
      in case version (indexRecordMajorVersion hdr) (indexMinorVersion hdr) of
           Inl e \<Rightarrow> Inl e
         | Inr v \<Rightarrow> Inr \<lparr>
             Index_version = v,
             Index_count = uint (indexRecordEntryCount hdr),
             Index_offset = offset + 4,
             Index_size = uint (indexRecordSizeBytes hdr) - 4 \<rparr>)"

text \<open>
  \<^verbatim>\<open>int(idx.size / idx.count)\<close>: true division raises \<^verbatim>\<open>ZeroDivisionError\<close> on a
  zero divisor and otherwise gives the binary64 number nearest to the quotient;
  \<^verbatim>\<open>int\<close> truncates it toward zero. Here \<open>-4 \<le> size < 2^32\<close> and \<open>0 < count < 2^32\<close>,
  so a quotient that is not an integer is at least \<open>1 / count\<close> away from the
  next integer, far more than the rounding error, and the result is the exact
  quotient truncated toward zero.
\<close>

definition py_int_truediv :: "int \<Rightarrow> int \<Rightarrow> error + int" where
  "py_int_truediv a b =
     (if b = 0 then Inl ZeroDivisionError
      else Inr (sgn a * sgn b * (\<bar>a\<bar> div \<bar>b\<bar>)))"

definition DBPF_index_width :: "DBPF \<Rightarrow> error + int" where
  "DBPF_index_width self =
     (case DBPF_index self of Inl e \<Rightarrow> Inl e
      | Inr idx \<Rightarrow> py_int_truediv (Index_size idx) (Index_count idx))"

text \<open>
  \<^verbatim>\<open>range(start, stop, step)\<close>: \<^verbatim>\<open>ValueError\<close> for a zero step, otherwise the
  arithmetic progression from \<open>start\<close> that stops before \<open>stop\<close>.
\<close>

definition range_len :: "int \<Rightarrow> int \<Rightarrow> int \<Rightarrow> nat" where
  "range_len start stop step =
     (if 0 < step \<and> start < stop then nat ((stop - start - 1) div step + 1)
      else if step < 0 \<and> stop < start then nat ((start - stop - 1) div (- step) + 1)
      else 0)"

definition py_range :: "int \<Rightarrow> int \<Rightarrow> int \<Rightarrow> error + int list" where
  "py_range start stop step =
     (if step = 0 then Inl ValueError
      else Inr (map (\<lambda>k. start + int k * step) [0..<range_len start stop step]))"

text \<open>
  The loop of \<^verbatim>\<open>_index_entries\<close>: one \<^verbatim>\<open>read(width)\<close> and one \<^verbatim>\<open>unpack\<close> per
  element of the range; the loop variable is not used.
\<close>

fun index_entries_loop ::
  "int list \<Rightarrow> int \<Rightarrow> fileobj \<Rightarrow> IndexEntry list \<Rightarrow> error + (IndexEntry list \<times> fileobj)" where
  "index_entries_loop [] width f index_entries = Inr (index_entries, f)"
| "index_entries_loop (i # rest) width f index_entries =
     (case read width f of Inl e \<Rightarrow> Inl e
      | Inr (buf, f') \<Rightarrow>
     (case IndexEntryStruct_unpack buf of Inl e \<Rightarrow> Inl e
      | Inr newIndexEntry \<Rightarrow>
          index_entries_loop rest width f' (index_entries @ [newIndexEntry])))"

definition DBPF_index_entries :: "DBPF \<Rightarrow> error + (IndexEntry list \<times> DBPF)" where
  "DBPF_index_entries self =
     (case DBPF_index self of Inl e \<Rightarrow> Inl e
      | Inr ind \<Rightarrow>
     (case DBPF_index_width self of Inl e \<Rightarrow> Inl e
      | Inr width \<Rightarrow>
     (case seek (Index_offset ind) (fd self) of Inl e \<Rightarrow> Inl e
      | Inr f1 \<Rightarrow>
     (case py_range 0 (Index_size ind) width of Inl e \<Rightarrow> Inl e
      | Inr rng \<Rightarrow>
     (case index_entries_loop rng width f1 [] of Inl e \<Rightarrow> Inl e
      | Inr (index_entries, f2) \<Rightarrow> Inr (index_entries, self\<lparr>fd := f2\<rparr>))))))"

text \<open>
  The loop of \<^verbatim>\<open>records\<close>: for each entry, \<^verbatim>\<open>seek(mnPosition)\<close>,
  \<^verbatim>\<open>read(mnSizeDecompressed)\<close>, and a \<^verbatim>\<open>Record\<close> from what was read.
\<close>

fun records_loop ::
  "IndexEntry list \<Rightarrow> fileobj \<Rightarrow> Record list \<Rightarrow> error + (Record list \<times> fileobj)" where
  "records_loop [] f records = Inr (records, f)"
| "records_loop (idx_entry # rest) f records =
     (let mnSize = uint (mnSizeDecompressed idx_entry);
          mnPosition = uint (mnPosition idx_entry)
      in case seek mnPosition f of Inl e \<Rightarrow> Inl e
         | Inr f1 \<Rightarrow>
        (case read mnSize f1 of Inl e \<Rightarrow> Inl e
         | Inr (buf, f2) \<Rightarrow>
             records_loop rest f2
               (records @ [\<lparr>
                  Record_tgi = TGI (mType idx_entry) (mGroup idx_entry) (mInstance idx_entry),
                  Record_offset = mnPosition,
                  Record_length = mnSize,
                  Record_raw = buf \<rparr>])))"

definition DBPF_records :: "DBPF \<Rightarrow> error + (Record list \<times> DBPF)" where
  "DBPF_records self =
     (case DBPF_index_entries self of Inl e \<Rightarrow> Inl e
      | Inr (entries, self1) \<Rightarrow>
     (case records_loop entries (fd self1) [] of Inl e \<Rightarrow> Inl e
      | Inr (records, f) \<Rightarrow> Inr (records, self1\<lparr>fd := f\<rparr>)))"

subsection \<open>Example containers\<close>

text \<open>
  Concrete headers, index entries and files, used to run the definitions. The files
  are written out byte by byte, as \<^verbatim>\<open>struct.pack\<close> lays them out.
\<close>

definition example_header :: "u32 \<Rightarrow> u32 \<Rightarrow> u32 \<Rightarrow> u32 \<Rightarrow> u64 \<Rightarrow> Header" where
  "example_header major count offsetV1 sizeBytes offsetV2 = \<lparr>
     fileIdentifier = ''DBPF'', fileMajor = major, fileMinor = 1,
     userMajor = 0, userMinor = 0, flags = 0, creationTime = 0, updatedTime = 0,
     indexRecordMajorVersion = 0, indexRecordEntryCount = count,
     indexOffsetBytesV1 = offsetV1, indexRecordSizeBytes = sizeBytes,
     holeIndexEntryCount = 0, holeIndexOffset = 0, holeIndexSize = 0,
     indexMinorVersion = 3, indexOffsetBytes = offsetV2,
     reserved = [
       CHR 0x00, CHR 0x00, CHR 0x00, CHR 0x00, CHR 0x00, CHR 0x00, CHR 0x00, CHR 0x00,
       CHR 0x00, CHR 0x00, CHR 0x00, CHR 0x00, CHR 0x00, CHR 0x00, CHR 0x00, CHR 0x00,
       CHR 0x00, CHR 0x00, CHR 0x00, CHR 0x00, CHR 0x00, CHR 0x00, CHR 0x00, CHR 0x00] \<rparr>"

definition example_entry :: "u32 \<Rightarrow> u32 \<Rightarrow> u32 \<Rightarrow> IndexEntry" where
  "example_entry inst position sizeDecompressed = \<lparr>
     mType = 7, mGroup = 0, mInstanceEx = 0, mInstance = inst,
     mnPosition = position, mnSize = sizeDecompressed,
     mnSizeDecompressed = sizeDecompressed, mnCompressionType = 0, mnCommitted = 1 \<rparr>"

text \<open>
  A well-formed file of 165 bytes: the header \<open>example_header 2 2 0 68 92\<close>, two
  entries at offset 96 (payloads at 160 and 163, of 3 and 2 bytes) and the payload
  bytes \<^verbatim>\<open>abcde\<close>.
\<close>

definition well_formed_file :: bytes where
  "well_formed_file = [
     CHR 0x44, CHR 0x42, CHR 0x50, CHR 0x46, CHR 0x02, CHR 0x00, CHR 0x00, CHR 0x00,
     CHR 0x01, CHR 0x00, CHR 0x00, CHR 0x00, CHR 0x00, CHR 0x00, CHR 0x00, CHR 0x00,
     CHR 0x00, CHR 0x00, CHR 0x00, CHR 0x00, CHR 0x00, CHR 0x00, CHR 0x00, CHR 0x00,
     CHR 0x00, CHR 0x00, CHR 0x00, CHR 0x00, CHR 0x00, CHR 0x00, CHR 0x00, CHR 0x00,
     CHR 0x00, CHR 0x00, CHR 0x00, CHR 0x00, CHR 0x02, CHR 0x00, CHR 0x00, CHR 0x00,
     CHR 0x00, CHR 0x00, CHR 0x00, CHR 0x00, CHR 0x44, CHR 0x00, CHR 0x00, CHR 0x00,
     CHR 0x00, CHR 0x00, CHR 0x00, CHR 0x00, CHR 0x00, CHR 0x00, CHR 0x00, CHR 0x00,
     CHR 0x00, CHR 0x00, CHR 0x00, CHR 0x00, CHR 0x03, CHR 0x00, CHR 0x00, CHR 0x00,
     CHR 0x5C, CHR 0x00, CHR 0x00, CHR 0x00, CHR 0x00, CHR 0x00, CHR 0x00, CHR 0x00,
     CHR 0x00, CHR 0x00, CHR 0x00, CHR 0x00, CHR 0x00, CHR 0x00, CHR 0x00, CHR 0x00,
     CHR 0x00, CHR 0x00, CHR 0x00, CHR 0x00, CHR 0x00, CHR 0x00, CHR 0x00, CHR 0x00,
     CHR 0x00, CHR 0x00, CHR 0x00, CHR 0x00, CHR 0x00, CHR 0x00, CHR 0x00, CHR 0x00,
     CHR 0x07, CHR 0x00, CHR 0x00, CHR 0x00, CHR 0x00, CHR 0x00, CHR 0x00, CHR 0x00,
     CHR 0x00, CHR 0x00, CHR 0x00, CHR 0x00, CHR 0x01, CHR 0x00, CHR 0x00, CHR 0x00,
     CHR 0xA0, CHR 0x00, CHR 0x00, CHR 0x00, CHR 0x03, CHR 0x00, CHR 0x00, CHR 0x00,
     CHR 0x03, CHR 0x00, CHR 0x00, CHR 0x00, CHR 0x00, CHR 0x00, CHR 0x01, CHR 0x00,
     CHR 0x07, CHR 0x00, CHR 0x00, CHR 0x00, CHR 0x00, CHR 0x00, CHR 0x00, CHR 0x00,
     CHR 0x00, CHR 0x00, CHR 0x00, CHR 0x00, CHR 0x02, CHR 0x00, CHR 0x00, CHR 0x00,
     CHR 0xA3, CHR 0x00, CHR 0x00, CHR 0x00, CHR 0x02, CHR 0x00, CHR 0x00, CHR 0x00,
     CHR 0x02, CHR 0x00, CHR 0x00, CHR 0x00, CHR 0x00, CHR 0x00, CHR 0x01, CHR 0x00,
     CHR 0x61, CHR 0x62, CHR 0x63, CHR 0x64, CHR 0x65]"


text \<open>
  A file of 131 bytes with one entry that declares a payload of 10 bytes at offset
  128, where only the 3 bytes \<^verbatim>\<open>abc\<close> are left.
\<close>

definition truncated_file :: bytes where
  "truncated_file = [
     CHR 0x44, CHR 0x42, CHR 0x50, CHR 0x46, CHR 0x02, CHR 0x00, CHR 0x00, CHR 0x00,
     CHR 0x01, CHR 0x00, CHR 0x00, CHR 0x00, CHR 0x00, CHR 0x00, CHR 0x00, CHR 0x00,
     CHR 0x00, CHR 0x00, CHR 0x00, CHR 0x00, CHR 0x00, CHR 0x00, CHR 0x00, CHR 0x00,
     CHR 0x00, CHR 0x00, CHR 0x00, CHR 0x00, CHR 0x00, CHR 0x00, CHR 0x00, CHR 0x00,
     CHR 0x00, CHR 0x00, CHR 0x00, CHR 0x00, CHR 0x01, CHR 0x00, CHR 0x00, CHR 0x00,
     CHR 0x00, CHR 0x00, CHR 0x00, CHR 0x00, CHR 0x24, CHR 0x00, CHR 0x00, CHR 0x00,
     CHR 0x00, CHR 0x00, CHR 0x00, CHR 0x00, CHR 0x00, CHR 0x00, CHR 0x00, CHR 0x00,
     CHR 0x00, CHR 0x00, CHR 0x00, CHR 0x00, CHR 0x03, CHR 0x00, CHR 0x00, CHR 0x00,
     CHR 0x5C, CHR 0x00, CHR 0x00, CHR 0x00, CHR 0x00, CHR 0x00, CHR 0x00, CHR 0x00,
     CHR 0x00, CHR 0x00, CHR 0x00, CHR 0x00, CHR 0x00, CHR 0x00, CHR 0x00, CHR 0x00,
     CHR 0x00, CHR 0x00, CHR 0x00, CHR 0x00, CHR 0x00, CHR 0x00, CHR 0x00, CHR 0x00,
     CHR 0x00, CHR 0x00, CHR 0x00, CHR 0x00, CHR 0x00, CHR 0x00, CHR 0x00, CHR 0x00,
     CHR 0x07, CHR 0x00, CHR 0x00, CHR 0x00, CHR 0x00, CHR 0x00, CHR 0x00, CHR 0x00,
     CHR 0x00, CHR 0x00, CHR 0x00, CHR 0x00, CHR 0x01, CHR 0x00, CHR 0x00, CHR 0x00,
     CHR 0x80, CHR 0x00, CHR 0x00, CHR 0x00, CHR 0x0A, CHR 0x00, CHR 0x00, CHR 0x00,
     CHR 0x0A, CHR 0x00, CHR 0x00, CHR 0x00, CHR 0x00, CHR 0x00, CHR 0x01, CHR 0x00,
     CHR 0x61, CHR 0x62, CHR 0x63]"

text \<open>
  A file of 128 bytes whose header declares 1 entry in an index of 68 bytes (64
  after the flags word), so that the inferred width is 64, and which ends 32 bytes
  after the start of the entries.
\<close>

definition short_index_file :: bytes where
  "short_index_file = [
     CHR 0x44, CHR 0x42, CHR 0x50, CHR 0x46, CHR 0x02, CHR 0x00, CHR 0x00, CHR 0x00,
     CHR 0x01, CHR 0x00, CHR 0x00, CHR 0x00, CHR 0x00, CHR 0x00, CHR 0x00, CHR 0x00,
     CHR 0x00, CHR 0x00, CHR 0x00, CHR 0x00, CHR 0x00, CHR 0x00, CHR 0x00, CHR 0x00,
     CHR 0x00, CHR 0x00, CHR 0x00, CHR 0x00, CHR 0x00, CHR 0x00, CHR 0x00, CHR 0x00,
     CHR 0x00, CHR 0x00, CHR 0x00, CHR 0x00, CHR 0x01, CHR 0x00, CHR 0x00, CHR 0x00,
     CHR 0x00, CHR 0x00, CHR 0x00, CHR 0x00, CHR 0x44, CHR 0x00, CHR 0x00, CHR 0x00,
     CHR 0x00, CHR 0x00, CHR 0x00, CHR 0x00, CHR 0x00, CHR 0x00, CHR 0x00, CHR 0x00,
     CHR 0x00, CHR 0x00, CHR 0x00, CHR 0x00, CHR 0x03, CHR 0x00, CHR 0x00, CHR 0x00,
     CHR 0x5C, CHR 0x00, CHR 0x00, CHR 0x00, CHR 0x00, CHR 0x00, CHR 0x00, CHR 0x00,
     CHR 0x00, CHR 0x00, CHR 0x00, CHR 0x00, CHR 0x00, CHR 0x00, CHR 0x00, CHR 0x00,
     CHR 0x00, CHR 0x00, CHR 0x00, CHR 0x00, CHR 0x00, CHR 0x00, CHR 0x00, CHR 0x00,
     CHR 0x00, CHR 0x00, CHR 0x00, CHR 0x00, CHR 0x00, CHR 0x00, CHR 0x00, CHR 0x00,
     CHR 0x07, CHR 0x00, CHR 0x00, CHR 0x00, CHR 0x00, CHR 0x00, CHR 0x00, CHR 0x00,
     CHR 0x00, CHR 0x00, CHR 0x00, CHR 0x00, CHR 0x01, CHR 0x00, CHR 0x00, CHR 0x00,
     CHR 0x00, CHR 0x00, CHR 0x00, CHR 0x00, CHR 0x04, CHR 0x00, CHR 0x00, CHR 0x00,
     CHR 0x04, CHR 0x00, CHR 0x00, CHR 0x00, CHR 0x00, CHR 0x00, CHR 0x01, CHR 0x00]"

text \<open>A header block of 96 bytes that starts with \<^verbatim>\<open>RIFF\<close> instead of \<^verbatim>\<open>DBPF\<close>.\<close>

definition bad_magic_file :: bytes where
  "bad_magic_file = [
     CHR 0x52, CHR 0x49, CHR 0x46, CHR 0x46, CHR 0x02, CHR 0x00, CHR 0x00, CHR 0x00,
     CHR 0x01, CHR 0x00, CHR 0x00, CHR 0x00, CHR 0x00, CHR 0x00, CHR 0x00, CHR 0x00,
     CHR 0x00, CHR 0x00, CHR 0x00, CHR 0x00, CHR 0x00, CHR 0x00, CHR 0x00, CHR 0x00,
     CHR 0x00, CHR 0x00, CHR 0x00, CHR 0x00, CHR 0x00, CHR 0x00, CHR 0x00, CHR 0x00,
     CHR 0x00, CHR 0x00, CHR 0x00, CHR 0x00, CHR 0x01, CHR 0x00, CHR 0x00, CHR 0x00,
     CHR 0x00, CHR 0x00, CHR 0x00, CHR 0x00, CHR 0x24, CHR 0x00, CHR 0x00, CHR 0x00,
     CHR 0x00, CHR 0x00, CHR 0x00, CHR 0x00, CHR 0x00, CHR 0x00, CHR 0x00, CHR 0x00,
     CHR 0x00, CHR 0x00, CHR 0x00, CHR 0x00, CHR 0x03, CHR 0x00, CHR 0x00, CHR 0x00,
     CHR 0x5C, CHR 0x00, CHR 0x00, CHR 0x00, CHR 0x00, CHR 0x00, CHR 0x00, CHR 0x00,
     CHR 0x00, CHR 0x00, CHR 0x00, CHR 0x00, CHR 0x00, CHR 0x00, CHR 0x00, CHR 0x00,
     CHR 0x00, CHR 0x00, CHR 0x00, CHR 0x00, CHR 0x00, CHR 0x00, CHR 0x00, CHR 0x00,
     CHR 0x00, CHR 0x00, CHR 0x00, CHR 0x00, CHR 0x00, CHR 0x00, CHR 0x00, CHR 0x00]"

text \<open>
  The \<^verbatim>\<open>DBPF\<close> objects that the constructor builds from the four files (the cursor
  is behind the header).
\<close>

definition well_formed_container :: DBPF where
  "well_formed_container =
     \<lparr>fd = \<lparr>data = well_formed_file, pos = 96\<rparr>, header = example_header 2 2 0 68 92\<rparr>"


definition truncated_container :: DBPF where
  "truncated_container =
     \<lparr>fd = \<lparr>data = truncated_file, pos = 96\<rparr>, header = example_header 2 1 0 36 92\<rparr>"

definition short_index_container :: DBPF where
  "short_index_container =
     \<lparr>fd = \<lparr>data = short_index_file, pos = 96\<rparr>, header = example_header 2 1 0 68 92\<rparr>"

subsection \<open>Notions used in the statements\<close>

text \<open>
  What \<^verbatim>\<open>records\<close> builds for one entry over the bytes \<open>bs\<close> of the file: the
  window that starts at \<open>mnPosition\<close> and has at most \<open>mnSizeDecompressed\<close> bytes.
\<close>

definition record_at :: "bytes \<Rightarrow> IndexEntry \<Rightarrow> Record" where
  "record_at bs idx_entry = \<lparr>
     Record_tgi = TGI (mType idx_entry) (mGroup idx_entry) (mInstance idx_entry),
     Record_offset = uint (mnPosition idx_entry),
     Record_length = uint (mnSizeDecompressed idx_entry),
     Record_raw = slice bs (unat (mnPosition idx_entry)) (unat (mnSizeDecompressed idx_entry)) \<rparr>"

text \<open>
  The value of the decimal text \<^verbatim>\<open>str(major) + '.' + str(minor)\<close>: the digits of
  \<open>minor\<close> are the fraction digits.
\<close>

definition decimal_of :: "u32 \<Rightarrow> u32 \<Rightarrow> rat" where
  "decimal_of major minor =
     of_nat (unat major) + of_nat (unat minor) / 10 ^ length (py_str (unat minor))"

text \<open>
  The exception classes that \<^verbatim>\<open>dbpf.py\<close> defines itself (its section
  \<^verbatim>\<open>#exceptions\<close>); every other exception is one of Python or of \<^verbatim>\<open>struct\<close>.
\<close>

definition module_exception :: "error \<Rightarrow> bool" where
  "module_exception e = (e = DBPFException \<or> e = ArgumentException)"

section \<open>Properties\<close>

subsection \<open>The version helper never raises\<close>

declare py_str.simps [simp del]

lemma is_digit_char_of: "d < 10 \<Longrightarrow> is_digit (char_of (48 + (d::nat)))"
  by (simp add: is_digit_def)

lemma py_str_digits: "list_all is_digit (py_str n)"
proof (induction n rule: py_str.induct)
  case (1 n)
  show ?case
  proof (cases "n < 10")
    case True
    then show ?thesis by (subst py_str.simps) (simp add: is_digit_char_of)
  next
    case False
    with 1 show ?thesis by (subst py_str.simps) (simp add: is_digit_char_of)
  qed
qed

lemma py_str_nonempty: "py_str n \<noteq> []"
  by (subst py_str.simps) simp

lemma digits_value_snoc: "digits_value (ds @ [c]) = 10 * digits_value ds + (of_char c - 48)"
  by (simp add: digits_value_def)

lemma digits_value_py_str: "digits_value (py_str n) = n"
proof (induction n rule: py_str.induct)
  case (1 n)
  show ?case
  proof (cases "n < 10")
    case True
    then show ?thesis by (subst py_str.simps) (simp add: digits_value_def)
  next
    case False
    with 1 show ?thesis by (subst py_str.simps) (simp add: digits_value_snoc)
  qed
qed

lemma dot_not_digit: "is_digit c \<Longrightarrow> c \<noteq> CHR ''.''"
  by (auto simp: is_digit_def)

lemma py_float_join:
  assumes "list_all is_digit a" "list_all is_digit b" "a \<noteq> []" "b \<noteq> []"
  shows "py_float (py_join ''.'' [a, b]) =
         Inr (Binary64_of (of_nat (digits_value a) + of_nat (digits_value b) / 10 ^ length b))"
proof -
  have nd: "\<forall>c \<in> set a. c \<noteq> CHR ''.''"
    using assms(1) by (auto simp: list_all_iff dest: dot_not_digit)
  have tw: "takeWhile (\<lambda>c. c \<noteq> CHR ''.'') (a @ CHR ''.'' # b) = a"
    using nd by simp
  have dw: "dropWhile (\<lambda>c. c \<noteq> CHR ''.'') (a @ CHR ''.'' # b) = CHR ''.'' # b"
    using nd by simp
  show ?thesis using assms by (simp add: py_float_def tw dw)
qed

lemma version_value: "version major minor = Inr (Binary64_of (decimal_of major minor))"
  unfolding version_def decimal_of_def
  by (simp only: py_float_join [OF py_str_digits py_str_digits py_str_nonempty py_str_nonempty]
        digits_value_py_str)

lemma decimal_of_2_1: "decimal_of 2 1 = 21 / 10"
  by code_simp

lemma decimal_of_2_10: "decimal_of 2 10 = 21 / 10"
  by code_simp

lemma decimal_of_0_3: "decimal_of 0 3 = 3 / 10"
  by code_simp

lemma DBPF_index_value:
  "DBPF_index self = Inr \<lparr>
     Index_version =
       Binary64_of (decimal_of (indexRecordMajorVersion (header self)) (indexMinorVersion (header self))),
     Index_count = uint (indexRecordEntryCount (header self)),
     Index_offset =
       (if fileMajor (header self) = 1 then uint (indexOffsetBytesV1 (header self))
        else uint (indexOffsetBytes (header self))) + 4,
     Index_size = uint (indexRecordSizeBytes (header self)) - 4 \<rparr>"
  by (simp add: DBPF_index_def Let_def version_value)

subsection \<open>The index descriptor\<close>

text \<open>
  C1. For every header, the offset of the resource index comes from the field
  chosen by the format version: \<open>indexOffsetBytesV1\<close> when \<open>fileMajor\<close> is 1,
  \<open>indexOffsetBytes\<close> for every other major version. (The descriptor reports the
  chosen offset plus 4, so the chosen offset is the reported one minus 4.)
\<close>

theorem index_offset_selected_by_fileMajor:
  "\<exists>idx. DBPF_index self = Inr idx \<and>
     Index_offset idx - 4 =
       (if fileMajor (header self) = 1 then uint (indexOffsetBytesV1 (header self))
        else uint (indexOffsetBytes (header self)))"
  by (simp add: DBPF_index_value)

theorem index_offset_selected_by_fileMajor_witness:
  "(\<exists>idx. DBPF_index \<lparr>fd = \<lparr>data = [], pos = 0\<rparr>, header = example_header 1 2 100 68 200\<rparr> = Inr idx
      \<and> Index_offset idx - 4 = 100)
   \<and> (\<exists>idx. DBPF_index \<lparr>fd = \<lparr>data = [], pos = 0\<rparr>, header = example_header 2 2 100 68 200\<rparr> = Inr idx
      \<and> Index_offset idx - 4 = 200)"
  using index_offset_selected_by_fileMajor
          [of "\<lparr>fd = \<lparr>data = [], pos = 0\<rparr>, header = example_header 1 2 100 68 200\<rparr>"]
        index_offset_selected_by_fileMajor
          [of "\<lparr>fd = \<lparr>data = [], pos = 0\<rparr>, header = example_header 2 2 100 68 200\<rparr>"]
  by (simp add: example_header_def)

text \<open>
  C2. For every header, the descriptor of the resource index has the chosen offset
  plus 4 as its offset and \<open>indexRecordSizeBytes\<close> minus 4 as its size; the count is
  \<open>indexRecordEntryCount\<close> and the version is \<^verbatim>\<open>version\<close> of the two index version
  fields, neither of them adjusted.
\<close>

theorem index_descriptor_fields:
  "\<exists>v idx. version (indexRecordMajorVersion (header self)) (indexMinorVersion (header self)) = Inr v
     \<and> DBPF_index self = Inr idx
     \<and> Index_version idx = v
     \<and> Index_count idx = uint (indexRecordEntryCount (header self))
     \<and> Index_offset idx =
         (if fileMajor (header self) = 1 then uint (indexOffsetBytesV1 (header self))
          else uint (indexOffsetBytes (header self))) + 4
     \<and> Index_size idx = uint (indexRecordSizeBytes (header self)) - 4"
  by (simp add: DBPF_index_value version_value)

theorem index_descriptor_fields_witness:
  "DBPF_index \<lparr>fd = \<lparr>data = [], pos = 0\<rparr>, header = example_header 2 2 100 68 200\<rparr> =
     Inr \<lparr>Index_version = Binary64_of (3 / 10), Index_count = 2, Index_offset = 204,
          Index_size = 64\<rparr>"
  using index_descriptor_fields
          [of "\<lparr>fd = \<lparr>data = [], pos = 0\<rparr>, header = example_header 2 2 100 68 200\<rparr>"]
  by (auto simp add: example_header_def version_value decimal_of_0_3)

subsection \<open>The header version\<close>

text \<open>
  C7. For every header, the version is the number whose decimal text is the digits
  of the major version, a point, and the digits of the minor version; major 2 and
  minor 1 give 2.1. The user version is computed in the same way from the user
  version fields. It is not \<open>major + minor / 10\<close>: major 2 and minor 10 give 2.1
  again, and not 3.
\<close>

theorem version_is_digit_concatenation:
  "DBPF_version self =
     Inr (Binary64_of (of_nat (unat (fileMajor (header self)))
            + of_nat (unat (fileMinor (header self)))
              / 10 ^ length (py_str (unat (fileMinor (header self))))))
   \<and> DBPF_user_version self =
     Inr (Binary64_of (of_nat (unat (userMajor (header self)))
            + of_nat (unat (userMinor (header self)))
              / 10 ^ length (py_str (unat (userMinor (header self))))))
   \<and> DBPF_version (self\<lparr>header := (header self)\<lparr>fileMajor := 2, fileMinor := 1\<rparr>\<rparr>) =
       Inr (Binary64_of (21 / 10))
   \<and> DBPF_version (self\<lparr>header := (header self)\<lparr>fileMajor := 2, fileMinor := 10\<rparr>\<rparr>) =
       Inr (Binary64_of (21 / 10))
   \<and> DBPF_version (self\<lparr>header := (header self)\<lparr>fileMajor := 2, fileMinor := 10\<rparr>\<rparr>) \<noteq>
       Inr (Binary64_of (2 + 10 / 10))"
proof -
  have v: "DBPF_version self =
     Inr (Binary64_of (of_nat (unat (fileMajor (header self)))
            + of_nat (unat (fileMinor (header self)))
              / 10 ^ length (py_str (unat (fileMinor (header self))))))"
    by (simp add: DBPF_version_def Let_def version_value decimal_of_def)
  have u: "DBPF_user_version self =
     Inr (Binary64_of (of_nat (unat (userMajor (header self)))
            + of_nat (unat (userMinor (header self)))
              / 10 ^ length (py_str (unat (userMinor (header self))))))"
    by (simp add: DBPF_user_version_def Let_def version_value decimal_of_def)
  have a: "DBPF_version (self\<lparr>header := (header self)\<lparr>fileMajor := 2, fileMinor := 1\<rparr>\<rparr>) =
       Inr (Binary64_of (21 / 10))"
    by (simp add: DBPF_version_def Let_def version_value decimal_of_2_1)
  have b: "DBPF_version (self\<lparr>header := (header self)\<lparr>fileMajor := 2, fileMinor := 10\<rparr>\<rparr>) =
       Inr (Binary64_of (21 / 10))"
    by (simp add: DBPF_version_def Let_def version_value decimal_of_2_10)
  have c: "Inr (Binary64_of (21 / 10)) \<noteq> (Inr (Binary64_of (2 + 10 / 10)) :: error + pyfloat)"
    by simp
  show ?thesis
    using v u a b c by simp
qed

subsection \<open>The constructor\<close>

lemma read_header_long:
  "96 \<le> length (data f) \<Longrightarrow>
   read (int HeaderStruct_size) (f\<lparr>pos := 0\<rparr>) = Inr (take 96 (data f), f\<lparr>pos := 96\<rparr>)"
  by (simp add: read_def HeaderStruct_size_def Let_def)

lemma DBPF_init_long:
  assumes "96 \<le> length (data f)"
  shows "DBPF_init f =
     (if take 4 (data f) \<noteq> ''DBPF'' then Inl DBPFException
      else Inr \<lparr>fd = f\<lparr>pos := 96\<rparr>, header = HeaderStruct_fields (take 96 (data f))\<rparr>)"
proof -
  have len: "length (take 96 (data f)) = HeaderStruct_size"
    using assms by (simp add: HeaderStruct_size_def)
  have magic: "fileIdentifier (HeaderStruct_fields (take 96 (data f))) = take 4 (data f)"
    by (simp add: HeaderStruct_fields_def slice_def)
  show ?thesis
    using assms
    by (simp add: DBPF_init_def seek_def read_def Let_def HeaderStruct_unpack_def
          HeaderStruct_size_def magic)
qed

lemma DBPF_init_short:
  assumes "length (data f) < 96"
  shows "DBPF_init f = Inl StructError"
  using assms
  by (simp add: DBPF_init_def seek_def read_def HeaderStruct_unpack_def HeaderStruct_size_def
        Let_def)

lemma length_bad_magic_file: "length bad_magic_file = 96"
  by (simp add: bad_magic_file_def)

lemma length_well_formed_file: "length well_formed_file = 165"
  by (simp add: well_formed_file_def)

lemma header_well_formed_file:
  "HeaderStruct_fields (take 96 well_formed_file) = example_header 2 2 0 68 92"
  by (simp add: well_formed_file_def HeaderStruct_fields_def slice_def le_word_def le_nat_def
        example_header_def)

text \<open>
  C6, as stated, fails on a source that is shorter than the header: the four bytes
  \<^verbatim>\<open>RIFF\<close> are not the magic, yet the constructor raises \<^verbatim>\<open>struct.error\<close> from
  \<^verbatim>\<open>unpack\<close> before it reaches the magic check, and not \<^verbatim>\<open>DBPFException\<close>.
\<close>

theorem short_source_raises_struct_error:
  "take 4 (data \<lparr>data = ''RIFF'', pos = 0\<rparr>) \<noteq> ''DBPF''
   \<and> DBPF_init \<lparr>data = ''RIFF'', pos = 0\<rparr> = Inl StructError
   \<and> DBPF_init \<lparr>data = ''RIFF'', pos = 0\<rparr> \<noteq> Inl DBPFException"
  by (simp add: DBPF_init_short)

text \<open>
  C6, amended. A source shorter than the 96 bytes of the header fails with
  \<^verbatim>\<open>struct.error\<close>, whatever its first bytes are. A source of at least 96 bytes
  whose first 4 bytes are not \<^verbatim>\<open>DBPF\<close> fails with \<^verbatim>\<open>DBPFException\<close>: the result is
  the exception alone, no \<^verbatim>\<open>DBPF\<close> object and no header. A source of at least 96
  bytes that begins with \<^verbatim>\<open>DBPF\<close> passes the check and yields the header decoded
  from its first 96 bytes.
\<close>

theorem magic_check_on_full_header:
  "(length (data f) < 96 \<longrightarrow> DBPF_init f = Inl StructError)
   \<and> (96 \<le> length (data f) \<and> take 4 (data f) \<noteq> ''DBPF'' \<longrightarrow>
        DBPF_init f = Inl DBPFException)
   \<and> (96 \<le> length (data f) \<and> take 4 (data f) = ''DBPF'' \<longrightarrow>
        (\<exists>self. DBPF_init f = Inr self
           \<and> header self = HeaderStruct_fields (take 96 (data f))
           \<and> fileIdentifier (header self) = ''DBPF''))"
proof (intro conjI impI)
  assume "length (data f) < 96"
  then show "DBPF_init f = Inl StructError" by (rule DBPF_init_short)
next
  assume "96 \<le> length (data f) \<and> take 4 (data f) \<noteq> ''DBPF''"
  then show "DBPF_init f = Inl DBPFException" by (simp add: DBPF_init_long)
next
  assume a: "96 \<le> length (data f) \<and> take 4 (data f) = ''DBPF''"
  have "fileIdentifier (HeaderStruct_fields (take 96 (data f))) = take 4 (data f)"
    by (simp add: HeaderStruct_fields_def slice_def)
  with a show "\<exists>self. DBPF_init f = Inr self
           \<and> header self = HeaderStruct_fields (take 96 (data f))
           \<and> fileIdentifier (header self) = ''DBPF''"
    by (simp add: DBPF_init_long)
qed

theorem magic_check_on_full_header_witness:
  "length (data \<lparr>data = ''DBPF'', pos = 0\<rparr>) < 96
   \<and> DBPF_init \<lparr>data = ''DBPF'', pos = 0\<rparr> = Inl StructError
   \<and> 96 \<le> length (data \<lparr>data = bad_magic_file, pos = 0\<rparr>)
   \<and> take 4 (data \<lparr>data = bad_magic_file, pos = 0\<rparr>) \<noteq> ''DBPF''
   \<and> DBPF_init \<lparr>data = bad_magic_file, pos = 0\<rparr> = Inl DBPFException
   \<and> 96 \<le> length (data \<lparr>data = well_formed_file, pos = 0\<rparr>)
   \<and> take 4 (data \<lparr>data = well_formed_file, pos = 0\<rparr>) = ''DBPF''
   \<and> (\<exists>self. DBPF_init \<lparr>data = well_formed_file, pos = 0\<rparr> = Inr self
         \<and> header self = example_header 2 2 0 68 92)"
proof -
  have m1: "take 4 bad_magic_file \<noteq> ''DBPF''"
    by (simp add: bad_magic_file_def)
  have m2: "take 4 well_formed_file = ''DBPF''"
    by (simp add: well_formed_file_def)
  show ?thesis
    using magic_check_on_full_header [of "\<lparr>data = ''DBPF'', pos = 0\<rparr>"]
          magic_check_on_full_header [of "\<lparr>data = bad_magic_file, pos = 0\<rparr>"]
          magic_check_on_full_header [of "\<lparr>data = well_formed_file, pos = 0\<rparr>"]
    by (auto simp add: length_bad_magic_file length_well_formed_file m1 m2
          header_well_formed_file)
qed

subsection \<open>Degenerate headers\<close>

lemma example_header_sel:
  "fileMajor (example_header major count v1 sz v2) = major"
  "indexRecordEntryCount (example_header major count v1 sz v2) = count"
  "indexOffsetBytesV1 (example_header major count v1 sz v2) = v1"
  "indexRecordSizeBytes (example_header major count v1 sz v2) = sz"
  "indexOffsetBytes (example_header major count v1 sz v2) = v2"
  by (simp_all add: example_header_def)

lemma DBPF_index_example:
  "DBPF_index \<lparr>fd = f, header = example_header 2 count v1 sz v2\<rparr> =
     Inr \<lparr>Index_version = Binary64_of (3 / 10), Index_count = uint count,
          Index_offset = uint v2 + 4, Index_size = uint sz - 4\<rparr>"
  by (simp add: DBPF_index_value example_header_def decimal_of_0_3)

text \<open>
  C9, as stated, fails: with \<open>indexRecordSizeBytes = 3\<close> the property \<^verbatim>\<open>index\<close> does not
  raise; it returns a descriptor of size \<open>-1\<close>.
\<close>

theorem small_index_size_goes_negative:
  "DBPF_index \<lparr>fd = \<lparr>data = [], pos = 0\<rparr>, header = example_header 2 1 0 3 92\<rparr> =
     Inr \<lparr>Index_version = Binary64_of (3 / 10), Index_count = 1, Index_offset = 96,
          Index_size = - 1\<rparr>"
  by (simp add: DBPF_index_example)

text \<open>
  C9, amended. For every header whose \<open>indexRecordSizeBytes\<close> is less than 4, the
  property \<^verbatim>\<open>index\<close> does not fail: it returns a descriptor whose size is the
  declared size minus 4, a negative number from \<open>-4\<close> to \<open>-1\<close> (Python integers do
  not wrap).
\<close>

theorem index_size_below_4:
  assumes "uint (indexRecordSizeBytes (header self)) < 4"
  shows "\<exists>idx. DBPF_index self = Inr idx
           \<and> Index_size idx = uint (indexRecordSizeBytes (header self)) - 4
           \<and> - 4 \<le> Index_size idx \<and> Index_size idx < 0"
  using assms by (simp add: DBPF_index_value)

theorem index_size_below_4_witness:
  "uint (indexRecordSizeBytes (header \<lparr>fd = \<lparr>data = [], pos = 0\<rparr>,
      header = example_header 2 1 0 0 92\<rparr>)) < 4
   \<and> (\<exists>idx. DBPF_index \<lparr>fd = \<lparr>data = [], pos = 0\<rparr>, header = example_header 2 1 0 0 92\<rparr> = Inr idx
         \<and> Index_size idx = - 4)"
  using index_size_below_4 [of "\<lparr>fd = \<lparr>data = [], pos = 0\<rparr>, header = example_header 2 1 0 0 92\<rparr>"]
  by (auto simp add: example_header_sel)

lemma DBPF_index_width_value:
  "DBPF_index_width self =
     py_int_truediv (uint (indexRecordSizeBytes (header self)) - 4)
       (uint (indexRecordEntryCount (header self)))"
  by (simp add: DBPF_index_width_def DBPF_index_value)

lemma zero_count_width:
  "indexRecordEntryCount (header self) = 0 \<Longrightarrow> DBPF_index_width self = Inl ZeroDivisionError"
  by (simp add: DBPF_index_width_value py_int_truediv_def)

text \<open>
  C3, as stated, fails: with an entry count of 0 the width computation raises
  Python's \<^verbatim>\<open>ZeroDivisionError\<close>, which is not an exception class of the module.
\<close>

theorem zero_count_is_ZeroDivisionError:
  "DBPF_index_width \<lparr>fd = \<lparr>data = [], pos = 0\<rparr>, header = example_header 2 0 0 4 92\<rparr> =
     Inl ZeroDivisionError
   \<and> \<not> module_exception ZeroDivisionError"
  by (simp add: zero_count_width example_header_sel module_exception_def)

text \<open>
  C3, amended. For every container whose entry count is 0, computing the entry
  width fails with Python's \<^verbatim>\<open>ZeroDivisionError\<close> (raised by the division itself),
  and so do decoding the index and extracting the records; no width is computed.
\<close>

theorem zero_count_fails:
  assumes "indexRecordEntryCount (header self) = 0"
  shows "DBPF_index_width self = Inl ZeroDivisionError
         \<and> DBPF_index_entries self = Inl ZeroDivisionError
         \<and> DBPF_records self = Inl ZeroDivisionError"
  using assms
  by (simp add: zero_count_width DBPF_index_entries_def DBPF_records_def DBPF_index_value)

theorem zero_count_fails_witness:
  "indexRecordEntryCount (header \<lparr>fd = \<lparr>data = well_formed_file, pos = 96\<rparr>,
      header = example_header 2 0 0 68 92\<rparr>) = 0
   \<and> DBPF_records \<lparr>fd = \<lparr>data = well_formed_file, pos = 96\<rparr>,
        header = example_header 2 0 0 68 92\<rparr> = Inl ZeroDivisionError"
  using zero_count_fails [of "\<lparr>fd = \<lparr>data = well_formed_file, pos = 96\<rparr>,
      header = example_header 2 0 0 68 92\<rparr>"]
  by (simp add: example_header_sel)

subsection \<open>Width inference\<close>



subsection \<open>Reading and seeking\<close>

lemma seek_in_range:
  "0 \<le> t \<Longrightarrow> t < 2 ^ 63 \<Longrightarrow> seek t f = Inr (f\<lparr>pos := nat t\<rparr>)"
  by (simp add: seek_def)

lemma seek_data: "seek t f = Inr f' \<Longrightarrow> data f' = data f \<and> pos f' = nat t"
  by (auto simp: seek_def split: if_splits)

lemma read_nonneg:
  "0 \<le> n \<Longrightarrow>
   read n f = Inr (slice (data f) (pos f) (nat n),
                   f\<lparr>pos := pos f + length (slice (data f) (pos f) (nat n))\<rparr>)"
  by (simp add: read_def slice_def Let_def)

lemma read_data: "read n f = Inr (buf, f') \<Longrightarrow> data f' = data f \<and> pos f' = pos f + length buf"
  by (auto simp: read_def Let_def split: if_splits)

lemma read_length:
  "read n f = Inr (buf, f') \<Longrightarrow>
   - 1 \<le> n \<and> length buf = (if n = - 1 then length (data f) - pos f
                           else min (nat n) (length (data f) - pos f))"
  by (auto simp: read_def Let_def split: if_splits)

lemma length_slice: "off + n \<le> length bs \<Longrightarrow> length (slice bs off n) = n"
  by (simp add: slice_def)

lemma unpack_Inr:
  "IndexEntryStruct_unpack buf = Inr e \<Longrightarrow> length buf = 32 \<and> e = IndexEntryStruct_fields buf"
  by (auto simp: IndexEntryStruct_unpack_def IndexEntryStruct_size_def split: if_splits)

subsection \<open>The loop of _index_entries\<close>

lemma index_entries_loop_data:
  "index_entries_loop rng w f acc = Inr (es, f') \<Longrightarrow> data f' = data f"
proof (induction rng arbitrary: f acc)
  case Nil
  then show ?case by simp
next
  case (Cons i rest)
  then show ?case
    by (auto split: sum.splits prod.splits dest!: read_data)
qed

lemma index_entries_loop_length:
  "index_entries_loop rng w f acc = Inr (es, f') \<Longrightarrow> length es = length acc + length rng"
proof (induction rng arbitrary: f acc)
  case Nil
  then show ?case by simp
next
  case (Cons i rest)
  then show ?case
    by (fastforce split: sum.splits prod.splits)
qed

lemma index_entries_loop_canonical:
  "pos f + 32 * length rng \<le> length (data f) \<Longrightarrow>
   index_entries_loop rng 32 f acc =
     Inr (acc @ map (\<lambda>k. IndexEntryStruct_fields (slice (data f) (pos f + 32 * k) 32))
                  [0..<length rng],
          f\<lparr>pos := pos f + 32 * length rng\<rparr>)"
proof (induction rng arbitrary: f acc)
  case Nil
  then show ?case by simp
next
  case (Cons i rest)
  let ?buf = "slice (data f) (pos f) 32"
  let ?f' = "f\<lparr>pos := pos f + 32\<rparr>"
  have len: "length ?buf = 32"
    using Cons.prems by (simp add: length_slice)
  have rd: "read 32 f = Inr (?buf, ?f')"
    using len by (simp add: read_nonneg)
  have up: "IndexEntryStruct_unpack ?buf = Inr (IndexEntryStruct_fields ?buf)"
    using len by (simp add: IndexEntryStruct_unpack_def IndexEntryStruct_size_def)
  have pre: "pos ?f' + 32 * length rest \<le> length (data ?f')"
    using Cons.prems by simp
  have shift: "map (\<lambda>k. IndexEntryStruct_fields (slice (data f) (pos f + 32 * k) 32))
                 [0..<Suc (length rest)] =
               IndexEntryStruct_fields ?buf #
               map (\<lambda>k. IndexEntryStruct_fields (slice (data f) (pos f + 32 + 32 * k) 32))
                 [0..<length rest]"
    by (simp add: upt_conv_Cons map_Suc_upt [symmetric] add.assoc del: upt_Suc)
  show ?case
    using Cons.IH [OF pre, of "acc @ [IndexEntryStruct_fields ?buf]"] rd up shift
    by (simp add: add.assoc)
qed

lemma index_entries_loop_eof:
  "rng \<noteq> [] \<Longrightarrow> length (data f) \<le> pos f \<Longrightarrow> \<exists>e. index_entries_loop rng w f acc = Inl e"
proof (cases rng)
  case Nil
  assume "rng \<noteq> []"
  with Nil show ?thesis by simp
next
  case (Cons i rest)
  assume eof: "length (data f) \<le> pos f"
  show ?thesis
  proof (cases "read w f")
    case (Inl e)
    with Cons show ?thesis by simp
  next
    case (Inr r)
    obtain buf f' where r: "r = (buf, f')" by (cases r)
    from Inr r eof have "length buf = 0"
      using read_length [of w f buf f'] by (simp split: if_splits)
    then have "IndexEntryStruct_unpack buf = Inl StructError"
      by (simp add: IndexEntryStruct_unpack_def IndexEntryStruct_size_def)
    with Inr r Cons show ?thesis by simp
  qed
qed

subsection \<open>The loop of records\<close>

lemma records_loop_value:
  "\<exists>f'. records_loop es f acc = Inr (acc @ map (record_at (data f)) es, f')
        \<and> data f' = data f"
proof (induction es arbitrary: f acc)
  case Nil
  then show ?case by simp
next
  case (Cons e rest)
  let ?p = "uint (mnPosition e)"
  let ?n = "uint (mnSizeDecompressed e)"
  let ?f1 = "f\<lparr>pos := unat (mnPosition e)\<rparr>"
  let ?buf = "slice (data f) (unat (mnPosition e)) (unat (mnSizeDecompressed e))"
  let ?f2 = "?f1\<lparr>pos := unat (mnPosition e) + length ?buf\<rparr>"
  have "?p < 2 ^ 32" using uint_bounded [of "mnPosition e"] by simp
  then have "?p < 2 ^ 63" by (rule less_le_trans) simp
  then have sk: "seek ?p f = Inr ?f1"
    by (simp add: seek_in_range)
  have rd: "read ?n ?f1 = Inr (?buf, ?f2)"
    by (simp add: read_nonneg)
  obtain f' where
    "records_loop rest ?f2 (acc @ [record_at (data f) e]) =
       Inr ((acc @ [record_at (data f) e]) @ map (record_at (data ?f2)) rest, f')"
    "data f' = data ?f2"
    using Cons.IH [of ?f2 "acc @ [record_at (data f) e]"] by blast
  then show ?case
    using sk rd by (simp add: Let_def record_at_def)
qed

subsection \<open>Index decoding and record extraction\<close>

lemma DBPF_index_entries_unfold:
  "DBPF_index_entries self =
     (case DBPF_index_width self of Inl e \<Rightarrow> Inl e
      | Inr width \<Rightarrow>
     (case seek ((if fileMajor (header self) = 1 then uint (indexOffsetBytesV1 (header self))
                  else uint (indexOffsetBytes (header self))) + 4) (fd self) of Inl e \<Rightarrow> Inl e
      | Inr f1 \<Rightarrow>
     (case py_range 0 (uint (indexRecordSizeBytes (header self)) - 4) width of Inl e \<Rightarrow> Inl e
      | Inr rng \<Rightarrow>
     (case index_entries_loop rng width f1 [] of Inl e \<Rightarrow> Inl e
      | Inr (index_entries, f2) \<Rightarrow> Inr (index_entries, self\<lparr>fd := f2\<rparr>)))))"
  by (simp add: DBPF_index_entries_def DBPF_index_value cong: sum.case_cong)

lemma DBPF_index_entries_data:
  assumes "DBPF_index_entries self = Inr (es, self1)"
  shows "data (fd self1) = data (fd self) \<and> header self1 = header self"
  using assms unfolding DBPF_index_entries_unfold
  by (auto split: sum.splits prod.splits dest!: seek_data index_entries_loop_data)

lemma DBPF_records_value:
  assumes "DBPF_index_entries self = Inr (es, self1)"
  shows "\<exists>self2. DBPF_records self = Inr (map (record_at (data (fd self))) es, self2)"
proof -
  have d: "data (fd self1) = data (fd self)"
    using DBPF_index_entries_data [OF assms] by simp
  obtain f' where "records_loop es (fd self1) [] = Inr (map (record_at (data (fd self1))) es, f')"
    using records_loop_value [of es "fd self1" "[]"] by auto
  then show ?thesis
    using assms d by (simp add: DBPF_records_def)
qed

lemma record_at_sel:
  "Record_offset (record_at bs e) = uint (mnPosition e)"
  "Record_length (record_at bs e) = uint (mnSizeDecompressed e)"
  "Record_raw (record_at bs e) = slice bs (unat (mnPosition e)) (unat (mnSizeDecompressed e))"
  "Record_tgi (record_at bs e) = TGI (mType e) (mGroup e) (mInstance e)"
  by (simp_all add: record_at_def)

lemma length_slice_min: "length (slice bs off n) = min n (length bs - off)"
  by (simp add: slice_def)

lemma short_slice:
  assumes "length bs < off + unat n" "0 < unat n"
  shows "int (length (slice bs off (unat n))) < uint n"
proof -
  have "length (slice bs off (unat n)) < unat n"
    using assms by (simp add: length_slice_min)
  then have "int (length (slice bs off (unat n))) < int (unat n)"
    by (rule iffD2 [OF of_nat_less_iff])
  then show ?thesis
    by (simp only: uint_nat)
qed

lemma full_slice:
  assumes "off + unat n \<le> length bs"
  shows "int (length (slice bs off (unat n))) = uint n"
proof -
  have "length (slice bs off (unat n)) = unat n"
    using assms by (rule length_slice)
  then show ?thesis
    by (simp only: uint_nat)
qed

text \<open>
  C8, amended. Record extraction never fails once the index is decoded, and it
  does not check the payload window against the end of the source. Every entry
  gives a record whose length field is the entry's \<open>mnSizeDecompressed\<close> and whose
  raw bytes are the bytes of the source from \<open>mnPosition\<close> on, at most that many.
  For an entry whose window extends past the end of the source (and is not empty),
  the record is returned with fewer raw bytes than its length field says.
\<close>

theorem records_keep_short_reads:
  assumes "DBPF_index_entries self = Inr (entries, self1)"
  shows "\<exists>records self2. DBPF_records self = Inr (records, self2)
           \<and> length records = length entries
           \<and> (\<forall>k<length entries.
                 Record_length (records ! k) = uint (mnSizeDecompressed (entries ! k))
               \<and> Record_raw (records ! k) =
                   slice (data (fd self)) (unat (mnPosition (entries ! k)))
                     (unat (mnSizeDecompressed (entries ! k)))
               \<and> (length (data (fd self)) <
                     unat (mnPosition (entries ! k)) + unat (mnSizeDecompressed (entries ! k))
                   \<and> 0 < unat (mnSizeDecompressed (entries ! k))
                   \<longrightarrow> int (length (Record_raw (records ! k))) < Record_length (records ! k)))"
proof -
  obtain self2 where r: "DBPF_records self = Inr (map (record_at (data (fd self))) entries, self2)"
    using DBPF_records_value [OF assms] by blast
  show ?thesis
    using r by (simp add: record_at_sel short_slice)
qed

lemma range_canonical:
  assumes "0 < N"
  shows "py_range 0 (32 * int N) 32 = Inr (map (\<lambda>k. 0 + int k * 32) [0..<N])"
proof -
  have "(31 + (int N - 1) * 32) div 32 = (int N - 1) + 31 div 32"
    by (rule div_mult_self1) simp
  moreover have "32 * int N - 1 = 31 + (int N - 1) * 32"
    by simp
  ultimately have "(32 * int N - 1) div 32 = int N - 1"
    by simp
  then have "range_len 0 (32 * int N) 32 = N"
    using assms by (simp add: range_len_def)
  then show ?thesis by (simp add: py_range_def)
qed

lemma DBPF_index_entries_canonical:
  assumes N: "0 < N"
    and cnt: "unat (indexRecordEntryCount (header self)) = N"
    and sz: "unat (indexRecordSizeBytes (header self)) = 32 * N + 4"
    and idx: "DBPF_index self = Inr idx"
    and fits: "nat (Index_offset idx) + 32 * N \<le> length (data (fd self))"
    and small: "length (data (fd self)) < 2 ^ 63"
  shows "DBPF_index_entries self =
     Inr (map (\<lambda>k. IndexEntryStruct_fields
                      (slice (data (fd self)) (nat (Index_offset idx) + 32 * k) 32)) [0..<N],
          self\<lparr>fd := (fd self)\<lparr>pos := nat (Index_offset idx) + 32 * N\<rparr>\<rparr>)"
proof -
  let ?off = "(if fileMajor (header self) = 1 then uint (indexOffsetBytesV1 (header self))
               else uint (indexOffsetBytes (header self))) + 4"
  have off: "Index_offset idx = ?off"
    using idx by (auto simp: DBPF_index_value)
  have off0: "0 \<le> ?off" by simp
  have c: "uint (indexRecordEntryCount (header self)) = int N"
    using cnt by (simp add: uint_nat)
  have s: "uint (indexRecordSizeBytes (header self)) - 4 = 32 * int N"
    using sz by (simp add: uint_nat)
  have w: "DBPF_index_width self = Inr 32"
    using N by (simp add: DBPF_index_width_value py_int_truediv_def c s sgn_if)
  have "int (nat ?off) \<le> int (length (data (fd self)))"
    using fits off by simp
  then have "?off < 2 ^ 63"
    using small off0 by simp
  then have sk: "seek ?off (fd self) = Inr ((fd self)\<lparr>pos := nat ?off\<rparr>)"
    using off0 by (simp add: seek_in_range)
  have lp: "index_entries_loop (map (\<lambda>k. 0 + int k * 32) [0..<N]) 32
              ((fd self)\<lparr>pos := nat ?off\<rparr>) [] =
            Inr ([] @ map (\<lambda>k. IndexEntryStruct_fields
                      (slice (data ((fd self)\<lparr>pos := nat ?off\<rparr>))
                         (pos ((fd self)\<lparr>pos := nat ?off\<rparr>) + 32 * k) 32))
                    [0..<length (map (\<lambda>k. 0 + int k * 32) [0..<N])],
                 (fd self)\<lparr>pos := nat ?off\<rparr>
                   \<lparr>pos := pos ((fd self)\<lparr>pos := nat ?off\<rparr>)
                      + 32 * length (map (\<lambda>k. 0 + int k * 32) [0..<N])\<rparr>)"
    by (rule index_entries_loop_canonical) (use fits off in simp)
  show ?thesis
    unfolding DBPF_index_entries_unfold
    using w sk lp by (simp add: s range_canonical [OF N] off)
qed

text \<open>
  C5. A well-formed container with \<open>N\<close> canonical entries: \<open>N > 0\<close>, the header
  declares \<open>N\<close> entries in an index of \<open>32 * N\<close> bytes after the flags word, and
  these bytes lie inside the source (whose length fits a file offset). Index
  decoding then yields exactly \<open>N\<close> entries, the \<open>k\<close>-th one decoded from the \<open>k\<close>-th
  block of 32 bytes after the index offset, and record extraction yields exactly
  \<open>N\<close> records, the \<open>k\<close>-th one read at the position of the \<open>k\<close>-th entry; where the
  payload window of the entry lies inside the source, the raw bytes of the record
  are exactly \<open>mnSizeDecompressed\<close> many.
\<close>

theorem well_formed_container_decodes:
  assumes N: "0 < N"
    and cnt: "unat (indexRecordEntryCount (header self)) = N"
    and sz: "unat (indexRecordSizeBytes (header self)) = 32 * N + 4"
    and idx: "DBPF_index self = Inr idx"
    and fits: "nat (Index_offset idx) + 32 * N \<le> length (data (fd self))"
    and small: "length (data (fd self)) < 2 ^ 63"
  shows "\<exists>entries self1 records self2.
      DBPF_index_entries self = Inr (entries, self1) \<and> length entries = N
      \<and> (\<forall>k<N. entries ! k =
            IndexEntryStruct_fields
              (slice (data (fd self)) (nat (Index_offset idx) + 32 * k) 32))
      \<and> DBPF_records self = Inr (records, self2) \<and> length records = N
      \<and> (\<forall>k<N. Record_offset (records ! k) = uint (mnPosition (entries ! k))
            \<and> Record_length (records ! k) = uint (mnSizeDecompressed (entries ! k))
            \<and> Record_raw (records ! k) =
                slice (data (fd self)) (unat (mnPosition (entries ! k)))
                  (unat (mnSizeDecompressed (entries ! k)))
            \<and> (unat (mnPosition (entries ! k)) + unat (mnSizeDecompressed (entries ! k))
                  \<le> length (data (fd self))
                \<longrightarrow> int (length (Record_raw (records ! k))) = Record_length (records ! k)))"
proof -
  let ?entries = "map (\<lambda>k. IndexEntryStruct_fields
                      (slice (data (fd self)) (nat (Index_offset idx) + 32 * k) 32)) [0..<N]"
  let ?self1 = "self\<lparr>fd := (fd self)\<lparr>pos := nat (Index_offset idx) + 32 * N\<rparr>\<rparr>"
  have e: "DBPF_index_entries self = Inr (?entries, ?self1)"
    by (rule DBPF_index_entries_canonical [OF assms])
  obtain self2 where
    r: "DBPF_records self = Inr (map (record_at (data (fd self))) ?entries, self2)"
    using DBPF_records_value [OF e] by blast
  have raw: "\<forall>k<N. unat (mnPosition (?entries ! k)) + unat (mnSizeDecompressed (?entries ! k))
                  \<le> length (data (fd self))
             \<longrightarrow> int (length (slice (data (fd self)) (unat (mnPosition (?entries ! k)))
                     (unat (mnSizeDecompressed (?entries ! k)))))
                 = uint (mnSizeDecompressed (?entries ! k))"
    by (simp add: full_slice)
  show ?thesis
    using e r raw
    by (intro exI [of _ ?entries] exI [of _ ?self1]
          exI [of _ "map (record_at (data (fd self))) ?entries"] exI [of _ self2])
       (simp add: record_at_sel)
qed

subsection \<open>Decoding under a width other than 32\<close>

lemma range_nonempty:
  fixes a b w :: int
  assumes b: "0 < b" and w: "w = sgn a * sgn b * (\<bar>a\<bar> div \<bar>b\<bar>)" and w0: "w \<noteq> 0"
  shows "0 < range_len 0 a w"
proof -
  consider "0 < a" | "a < 0" | "a = 0" by linarith
  then show ?thesis
  proof cases
    case 1
    then have "w = a div b" using b w by (simp add: sgn_if)
    moreover have "0 \<le> a div b" using 1 b by (simp add: pos_imp_zdiv_nonneg_iff)
    ultimately have wp: "0 < w" using w0 by simp
    have "0 \<le> (a - 1) div w" using 1 wp by (simp add: pos_imp_zdiv_nonneg_iff)
    then show ?thesis using 1 wp by (simp add: range_len_def)
  next
    case 2
    then have "w = - ((- a) div b)" using b w by (simp add: sgn_if)
    moreover have "0 \<le> (- a) div b" using 2 b by (simp add: pos_imp_zdiv_nonneg_iff)
    ultimately have wn: "w < 0" using w0 by simp
    have "0 \<le> (- a - 1) div (- w)" using 2 wn by (simp add: pos_imp_zdiv_nonneg_iff)
    then show ?thesis using 2 wn by (simp add: range_len_def)
  next
    case 3
    then show ?thesis using w w0 by simp
  qed
qed

lemma single_step_range:
  fixes a b w :: int
  assumes b: "0 < b" and w: "w = sgn a * sgn b * (\<bar>a\<bar> div \<bar>b\<bar>)"
    and one: "range_len 0 a w = 1" and big: "32 < w \<or> w = - 1"
  shows "b = 1 \<and> w = a"
  using big
proof
  assume wp: "32 < w"
  have ap: "0 < a"
  proof (rule ccontr)
    assume "\<not> 0 < a"
    then have "a = 0 \<or> a < 0" by linarith
    then have "w \<le> 0"
      using w b by (auto simp: sgn_if pos_imp_zdiv_nonneg_iff)
    then show False using wp by simp
  qed
  then have wd: "w = a div b" using b w by (simp add: sgn_if)
  have "nat ((a - 1) div w + 1) = 1"
    using one ap wp by (simp add: range_len_def)
  then have "(a - 1) div w = 0" by linarith
  then have "a - 1 < w"
    using ap wp by (auto simp add: zdiv_eq_0_iff)
  then have le: "a \<le> a div b" using wd by simp
  have b1: "b = 1"
  proof (rule ccontr)
    assume "b \<noteq> 1"
    then have "1 < b" using b by simp
    then have "a div b < a" by (rule int_div_less_self [OF ap])
    then show False using le by simp
  qed
  then show ?thesis using wd by simp
next
  assume wm: "w = - 1"
  have an: "a < 0"
  proof (rule ccontr)
    assume "\<not> a < 0"
    then have "0 \<le> a" by simp
    then have "0 \<le> w"
      using w b by (auto simp: sgn_if pos_imp_zdiv_nonneg_iff)
    then show False using wm by simp
  qed
  have "nat ((0 - a - 1) div (- w) + 1) = 1"
    using one an wm by (simp add: range_len_def)
  then have a1: "a = - 1" using wm by simp
  then have "- 1 = - (1 div b)" using w wm b by (simp add: sgn_if)
  then have d: "1 div b = 1" by simp
  have b1: "b = 1"
  proof (rule ccontr)
    assume "b \<noteq> 1"
    then have "1 < b" using b by simp
    then have "(1::int) div b < 1" by (rule int_div_less_self [OF zero_less_one])
    then show False using d by simp
  qed
  then show ?thesis using a1 wm by simp
qed

text \<open>
  C10, amended. For every container whose inferred width differs from 32, index
  decoding fails, unless the header declares a single entry (so that the width is
  the whole index size, more than 32 or \<open>-1\<close>) and the source ends exactly 32 bytes
  after the index offset: whenever decoding succeeds under such a width, it
  returns one entry, read by a \<^verbatim>\<open>read(width)\<close> that the end of the source cut to
  32 bytes.
\<close>

theorem noncanonical_width_needs_short_read:
  assumes w: "DBPF_index_width self = Inr w"
    and ne: "w \<noteq> 32"
    and ok: "DBPF_index_entries self = Inr (es, self1)"
  shows "length es = 1
         \<and> indexRecordEntryCount (header self) = 1
         \<and> (32 < w \<or> w = - 1)
         \<and> (\<exists>idx. DBPF_index self = Inr idx \<and> w = Index_size idx
               \<and> int (length (data (fd self))) = Index_offset idx + 32)"
proof -
  let ?off = "(if fileMajor (header self) = 1 then uint (indexOffsetBytesV1 (header self))
               else uint (indexOffsetBytes (header self))) + 4"
  let ?a = "uint (indexRecordSizeBytes (header self)) - 4"
  let ?b = "uint (indexRecordEntryCount (header self))"
  have off0: "0 \<le> ?off" by simp
  from w have b0: "?b \<noteq> 0" and wv: "w = sgn ?a * sgn ?b * (\<bar>?a\<bar> div \<bar>?b\<bar>)"
    by (auto simp: DBPF_index_width_value py_int_truediv_def split: if_splits)
  then have bp: "0 < ?b"
    using uint_ge_0 [of "indexRecordEntryCount (header self)"] by linarith
  from ok w obtain f1 rng f2 where
    sk: "seek ?off (fd self) = Inr f1" and
    rg: "py_range 0 ?a w = Inr rng" and
    lp: "index_entries_loop rng w f1 [] = Inr (es, f2)"
    unfolding DBPF_index_entries_unfold
    by (auto split: sum.splits prod.splits)
  from rg have w0: "w \<noteq> 0" and len_rng: "length rng = range_len 0 ?a w"
    by (auto simp: py_range_def split: if_splits)
  have "0 < length rng"
    using range_nonempty [OF bp wv w0] len_rng by simp
  then obtain i rest where rng: "rng = i # rest"
    by (cases rng) auto
  from lp rng obtain buf f' e where
    rd: "read w f1 = Inr (buf, f')" and
    up: "IndexEntryStruct_unpack buf = Inr e" and
    lp': "index_entries_loop rest w f' [e] = Inr (es, f2)"
    by (auto split: sum.splits prod.splits)
  have lb: "length buf = 32" using unpack_Inr [OF up] by simp
  have rl: "- 1 \<le> w \<and> length buf = (if w = - 1 then length (data f1) - pos f1
                           else min (nat w) (length (data f1) - pos f1))"
    using rd by (rule read_length)
  have avail: "length (data f1) - pos f1 = 32" and big: "32 < w \<or> w = - 1"
    using rl lb ne by (auto simp: min_def split: if_splits)
  have f': "data f' = data f1" "pos f' = pos f1 + 32"
    using read_data [OF rd] lb by simp_all
  have eof: "length (data f') \<le> pos f'"
    using f' avail by simp
  have rest: "rest = []"
  proof (rule ccontr)
    assume "rest \<noteq> []"
    then obtain x where "index_entries_loop rest w f' [e] = Inl x"
      using index_entries_loop_eof [OF _ eof] by blast
    then show False using lp' by simp
  qed
  have one: "length es = 1"
    using index_entries_loop_length [OF lp] rng rest by simp
  have "range_len 0 ?a w = 1"
    using len_rng rng rest by simp
  then have b1: "?b = 1" and wa: "w = ?a"
    using single_step_range [OF bp wv _ big] by simp_all
  have cnt: "indexRecordEntryCount (header self) = 1"
    using b1 by (metis uint_1_eq word_uint_eq_iff)
  have f1: "data f1 = data (fd self)" "pos f1 = nat ?off"
    using seek_data [OF sk] by simp_all
  have "length (data f1) = pos f1 + 32"
    using avail by arith
  then have "length (data (fd self)) = nat ?off + 32"
    by (simp only: f1)
  then have "int (length (data (fd self))) = ?off + 32"
    using off0 by simp
  then show ?thesis
    using one cnt big wa by (simp add: DBPF_index_value)
qed

subsection \<open>Running the example containers\<close>

lemma upt_small: "[0..<1] = [0]" "[0..<2] = [0, 1]" "[0..<3] = [0, 1, 2]"
  by (simp_all add: eval_nat_numeral)

lemmas fields_eval =
  HeaderStruct_fields_def IndexEntryStruct_fields_def slice_def le_word_def le_nat_def
  example_header_def example_entry_def

lemma init_well_formed:
  "DBPF_init \<lparr>data = well_formed_file, pos = 0\<rparr> = Inr well_formed_container"
proof -
  have "take 4 well_formed_file = ''DBPF''" by (simp add: well_formed_file_def)
  then show ?thesis
    by (simp add: DBPF_init_long length_well_formed_file header_well_formed_file
          well_formed_container_def)
qed


lemma init_truncated:
  "DBPF_init \<lparr>data = truncated_file, pos = 0\<rparr> = Inr truncated_container"
proof -
  have "length truncated_file = 131" by (simp add: truncated_file_def)
  moreover have "take 4 truncated_file = ''DBPF''" by (simp add: truncated_file_def)
  moreover have "HeaderStruct_fields (take 96 truncated_file) = example_header 2 1 0 36 92"
    by (simp add: truncated_file_def fields_eval)
  ultimately show ?thesis
    by (simp add: DBPF_init_long truncated_container_def)
qed

lemma init_short_index:
  "DBPF_init \<lparr>data = short_index_file, pos = 0\<rparr> = Inr short_index_container"
proof -
  have "length short_index_file = 128" by (simp add: short_index_file_def)
  moreover have "take 4 short_index_file = ''DBPF''" by (simp add: short_index_file_def)
  moreover have "HeaderStruct_fields (take 96 short_index_file) = example_header 2 1 0 68 92"
    by (simp add: short_index_file_def fields_eval)
  ultimately show ?thesis
    by (simp add: DBPF_init_long short_index_container_def)
qed

lemma well_formed_entries:
  "IndexEntryStruct_fields (slice well_formed_file 96 32) = example_entry 1 160 3"
  "IndexEntryStruct_fields (slice well_formed_file 128 32) = example_entry 2 163 2"
  by (simp_all add: well_formed_file_def fields_eval)


lemma truncated_entries:
  "IndexEntryStruct_fields (slice truncated_file 96 32) = example_entry 1 128 10"
  by (simp add: truncated_file_def fields_eval)

lemma short_index_entries:
  "IndexEntryStruct_fields (slice short_index_file 96 64) = example_entry 1 0 4"
  "length (slice short_index_file 96 64) = 32"
  by (simp_all add: short_index_file_def fields_eval)

lemma example_entry_sel:
  "mType (example_entry i p n) = 7" "mGroup (example_entry i p n) = 0"
  "mInstance (example_entry i p n) = i" "mnPosition (example_entry i p n) = p"
  "mnSizeDecompressed (example_entry i p n) = n"
  by (simp_all add: example_entry_def)


lemma truncated_decodes:
  "DBPF_index_entries truncated_container =
     Inr ([example_entry 1 128 10],
          truncated_container\<lparr>fd := \<lparr>data = truncated_file, pos = 128\<rparr>\<rparr>)"
proof -
  have len: "length truncated_file = 131" by (simp add: truncated_file_def)
  have idx: "DBPF_index truncated_container =
     Inr \<lparr>Index_version = Binary64_of (3 / 10), Index_count = 1, Index_offset = 96,
          Index_size = 32\<rparr>"
    by (simp add: truncated_container_def DBPF_index_example)
  show ?thesis
    using DBPF_index_entries_canonical [of 1 truncated_container, OF _ _ _ idx]
    by (simp add: upt_small truncated_entries len)
       (simp add: truncated_container_def example_header_sel truncated_entries len)
qed

lemma well_formed_index:
  "DBPF_index well_formed_container =
     Inr \<lparr>Index_version = Binary64_of (3 / 10), Index_count = 2, Index_offset = 96,
          Index_size = 64\<rparr>"
  by (simp add: well_formed_container_def DBPF_index_example)

lemma short_index_decodes:
  "DBPF_index_width short_index_container = Inr 64"
  "DBPF_index_entries short_index_container =
     Inr ([example_entry 1 0 4],
          short_index_container\<lparr>fd := \<lparr>data = short_index_file, pos = 128\<rparr>\<rparr>)"
proof -
  show w: "DBPF_index_width short_index_container = Inr 64"
    by (simp add: DBPF_index_width_value short_index_container_def example_header_sel
          py_int_truediv_def)
  have rg: "py_range 0 64 64 = Inr [0]"
    by (simp add: py_range_def range_len_def upt_small)
  have rd: "read 64 \<lparr>data = short_index_file, pos = 96\<rparr> =
      Inr (slice short_index_file 96 64, \<lparr>data = short_index_file, pos = 128\<rparr>)"
    by (simp add: read_nonneg short_index_entries)
  have up: "IndexEntryStruct_unpack (slice short_index_file 96 64) = Inr (example_entry 1 0 4)"
    by (simp add: IndexEntryStruct_unpack_def IndexEntryStruct_size_def short_index_entries)
  show "DBPF_index_entries short_index_container =
     Inr ([example_entry 1 0 4],
          short_index_container\<lparr>fd := \<lparr>data = short_index_file, pos = 128\<rparr>\<rparr>)"
    unfolding DBPF_index_entries_unfold w
    by (simp add: short_index_container_def example_header_sel seek_def rg rd up)
qed

subsection \<open>The claims on the example containers\<close>



text \<open>
  C8, as stated, fails: the entry of \<open>truncated_file\<close> declares 10 bytes at offset
  128 of a source of 131 bytes; extraction succeeds and returns a record of length
  10 with the 3 raw bytes \<^verbatim>\<open>abc\<close>.
\<close>

theorem truncated_payload_is_returned_short:
  "DBPF_init \<lparr>data = truncated_file, pos = 0\<rparr> = Inr truncated_container
   \<and> length truncated_file < 128 + 10
   \<and> map_sum id fst (DBPF_records truncated_container) =
       Inr [\<lparr>Record_tgi = TGI 7 0 1, Record_offset = 128, Record_length = 10,
             Record_raw = ''abc''\<rparr>]"
proof -
  obtain self2 where
    "DBPF_records truncated_container =
       Inr (map (record_at (data (fd truncated_container))) [example_entry 1 128 10], self2)"
    using DBPF_records_value [OF truncated_decodes] by blast
  moreover have "record_at truncated_file (example_entry 1 128 10) =
      \<lparr>Record_tgi = TGI 7 0 1, Record_offset = 128, Record_length = 10,
        Record_raw = ''abc''\<rparr>"
    by (simp add: record_at_def example_entry_sel) (simp add: truncated_file_def slice_def)
  moreover have "length truncated_file < 128 + 10"
    by (simp add: truncated_file_def)
  ultimately show ?thesis
    by (simp add: init_truncated) (simp add: truncated_container_def)
qed

theorem records_keep_short_reads_witness:
  "DBPF_index_entries truncated_container =
     Inr ([example_entry 1 128 10],
          truncated_container\<lparr>fd := \<lparr>data = truncated_file, pos = 128\<rparr>\<rparr>)
   \<and> length (data (fd truncated_container)) < unat (128 :: u32) + unat (10 :: u32)
   \<and> 0 < unat (10 :: u32)
   \<and> (\<exists>records self2. DBPF_records truncated_container = Inr (records, self2)
         \<and> length records = 1
         \<and> Record_length (records ! 0) = 10
         \<and> int (length (Record_raw (records ! 0))) < 10)"
proof -
  have l: "length (data (fd truncated_container)) < unat (128 :: u32) + unat (10 :: u32)"
    by (simp add: truncated_container_def truncated_file_def)
  show ?thesis
    using records_keep_short_reads [OF truncated_decodes] l truncated_decodes
    by (auto simp add: example_entry_sel)
qed

text \<open>
  C10, as stated, fails: in \<open>short_index_file\<close> the inferred width is 64, the
  source ends 32 bytes after the index offset, \<^verbatim>\<open>read(64)\<close> returns these 32
  bytes, and decoding returns the entry unpacked from them.
\<close>

theorem short_read_decodes_under_width_64:
  "DBPF_init \<lparr>data = short_index_file, pos = 0\<rparr> = Inr short_index_container
   \<and> DBPF_index_width short_index_container = Inr 64
   \<and> DBPF_index_entries short_index_container =
       Inr ([example_entry 1 0 4],
            short_index_container\<lparr>fd := \<lparr>data = short_index_file, pos = 128\<rparr>\<rparr>)"
  by (simp add: init_short_index short_index_decodes)

theorem noncanonical_width_needs_short_read_witness:
  "DBPF_index_width short_index_container = Inr 64
   \<and> (64 :: int) \<noteq> 32
   \<and> DBPF_index_entries short_index_container =
       Inr ([example_entry 1 0 4],
            short_index_container\<lparr>fd := \<lparr>data = short_index_file, pos = 128\<rparr>\<rparr>)
   \<and> length [example_entry 1 0 4] = 1
   \<and> indexRecordEntryCount (header short_index_container) = 1
   \<and> (\<exists>idx. DBPF_index short_index_container = Inr idx \<and> 64 = Index_size idx
         \<and> int (length (data (fd short_index_container))) = Index_offset idx + 32)"
proof -
  have ne: "(64 :: int) \<noteq> 32" by simp
  show ?thesis
    using noncanonical_width_needs_short_read
            [OF short_index_decodes(1) ne short_index_decodes(2)]
          short_index_decodes
    by simp
qed

theorem well_formed_container_decodes_witness:
  "0 < (2 :: nat)
   \<and> unat (indexRecordEntryCount (header well_formed_container)) = 2
   \<and> unat (indexRecordSizeBytes (header well_formed_container)) = 32 * 2 + 4
   \<and> DBPF_index well_formed_container =
       Inr \<lparr>Index_version = Binary64_of (3 / 10), Index_count = 2, Index_offset = 96,
            Index_size = 64\<rparr>
   \<and> nat 96 + 32 * 2 \<le> length (data (fd well_formed_container))
   \<and> length (data (fd well_formed_container)) < 2 ^ 63
   \<and> (\<exists>entries self1 records self2.
         DBPF_index_entries well_formed_container = Inr (entries, self1)
         \<and> entries = [example_entry 1 160 3, example_entry 2 163 2]
         \<and> DBPF_records well_formed_container = Inr (records, self2)
         \<and> length records = 2
         \<and> unat (mnPosition (entries ! 0)) + unat (mnSizeDecompressed (entries ! 0))
             \<le> length (data (fd well_formed_container))
         \<and> unat (mnPosition (entries ! 1)) + unat (mnSizeDecompressed (entries ! 1))
             \<le> length (data (fd well_formed_container))
         \<and> Record_raw (records ! 0) = ''abc'' \<and> Record_length (records ! 0) = 3
         \<and> Record_raw (records ! 1) = ''de'' \<and> Record_length (records ! 1) = 2)"
proof -
  let ?c = well_formed_container
  let ?idx = "\<lparr>Index_version = Binary64_of (3 / 10), Index_count = 2, Index_offset = 96,
            Index_size = 64\<rparr>"
  have h1: "0 < (2 :: nat)" by simp
  have h2: "unat (indexRecordEntryCount (header ?c)) = 2"
    by (simp add: well_formed_container_def example_header_sel)
  have h3: "unat (indexRecordSizeBytes (header ?c)) = 32 * 2 + 4"
    by (simp add: well_formed_container_def example_header_sel)
  have h4: "DBPF_index ?c = Inr ?idx" by (rule well_formed_index)
  have d: "data (fd ?c) = well_formed_file"
    by (simp add: well_formed_container_def)
  have h5: "nat (Index_offset ?idx) + 32 * 2 \<le> length (data (fd ?c))"
    by (simp add: d length_well_formed_file)
  have h6: "length (data (fd ?c)) < 2 ^ 63"
    by (simp add: d length_well_formed_file)
  obtain entries self1 records self2 where
    e: "DBPF_index_entries ?c = Inr (entries, self1)" and le: "length entries = 2" and
    ev: "\<forall>k<2. entries ! k =
            IndexEntryStruct_fields (slice (data (fd ?c)) (nat (Index_offset ?idx) + 32 * k) 32)" and
    r: "DBPF_records ?c = Inr (records, self2)" and lr: "length records = 2" and
    rv: "\<forall>k<2. Record_offset (records ! k) = uint (mnPosition (entries ! k))
            \<and> Record_length (records ! k) = uint (mnSizeDecompressed (entries ! k))
            \<and> Record_raw (records ! k) =
                slice (data (fd ?c)) (unat (mnPosition (entries ! k)))
                  (unat (mnSizeDecompressed (entries ! k)))
            \<and> (unat (mnPosition (entries ! k)) + unat (mnSizeDecompressed (entries ! k))
                  \<le> length (data (fd ?c))
                \<longrightarrow> int (length (Record_raw (records ! k))) = Record_length (records ! k))"
    using well_formed_container_decodes [OF h1 h2 h3 h4 h5 h6] by blast
  have e0: "entries ! 0 = example_entry 1 160 3"
    using ev [rule_format, of 0] by (simp add: d well_formed_entries)
  have e1: "entries ! 1 = example_entry 2 163 2"
    using ev [rule_format, of 1] by (simp add: d well_formed_entries)
  have es: "entries = [example_entry 1 160 3, example_entry 2 163 2]"
  proof (rule nth_equalityI)
    show "length entries = length [example_entry 1 160 3, example_entry 2 163 2]"
      using le by simp
  next
    fix i assume "i < length entries"
    then have "i = 0 \<or> i = 1" using le by auto
    then show "entries ! i = [example_entry 1 160 3, example_entry 2 163 2] ! i"
      using e0 e1 by auto
  qed
  have s0: "slice well_formed_file 160 3 = ''abc''" and s1: "slice well_formed_file 163 2 = ''de''"
    by (simp_all add: well_formed_file_def slice_def)
  have r0: "Record_raw (records ! 0) = ''abc'' \<and> Record_length (records ! 0) = 3"
    using rv [rule_format, of 0] unfolding es by (simp add: example_entry_sel d s0)
  have r1: "Record_raw (records ! 1) = ''de'' \<and> Record_length (records ! 1) = 2"
    using rv [rule_format, of 1] unfolding es by (simp add: example_entry_sel d s1)
  have w: "unat (mnPosition (entries ! 0)) + unat (mnSizeDecompressed (entries ! 0))
             \<le> length (data (fd ?c))
           \<and> unat (mnPosition (entries ! 1)) + unat (mnSizeDecompressed (entries ! 1))
             \<le> length (data (fd ?c))"
    unfolding es by (simp add: example_entry_sel d length_well_formed_file)
  show ?thesis
    using h2 h3 h4 h5 h6 e es r lr w r0 r1 by simp
qed

end
